theory Spec2Isabelle
  imports Complex_Main
begin

section \<open>Tracking gateway: data model\<close>

text \<open>
  The closed status taxonomy of \<^verbatim>\<open>trackingController.ts\<close> (type \<^verbatim>\<open>TrackingStatus\<close>).
\<close>

datatype TrackingStatus =
    ok
  | no_fix_yet
  | not_mapped
  | device_not_found
  | car_not_found
  | traccar_not_configured
  | traccar_error
  | rate_limited

text \<open>
  JavaScript truthiness, as the controller and the provider client test it with
  \<^verbatim>\<open>!x\<close>, \<^verbatim>\<open>x && ...\<close> and \<^verbatim>\<open>x || y\<close>: an absent value (undefined or null,
  here \<open>None\<close>) is falsy, and so are the number 0 and the empty string.
\<close>

definition truthy_num :: "int option \<Rightarrow> bool" where
  "truthy_num v = (case v of None \<Rightarrow> False | Some n \<Rightarrow> n \<noteq> 0)"

definition truthy_str :: "string option \<Rightarrow> bool" where
  "truthy_str v = (case v of None \<Rightarrow> False | Some s \<Rightarrow> s \<noteq> [])"

text \<open>
  The environment module \<^verbatim>\<open>env.config\<close> is outside the files modelled here; the four
  values the gateway reads from it are parameters of the model.
\<close>

record env_config =
  TRACCAR_BASE_URL :: "string option"
  TRACCAR_USER :: "string option"
  TRACCAR_PASS :: "string option"
  TRACCAR_MIN_POLL_INTERVAL :: "int option"

text \<open>
  The vehicle document as the controller reads it (\<^verbatim>\<open>_id\<close> and the four selected
  fields). The Mongoose model is outside the files modelled here; the fields are those of
  the \<^verbatim>\<open>select\<close> and of \<^verbatim>\<open>mapCar\<close>. An absent or null field is \<open>None\<close>.
\<close>

record Car =
  car_id :: string
  car_name :: string
  car_licensePlate :: "string option"
  car_traccarDeviceId :: "int option"
  car_traccarUniqueId :: "string option"

record TrackedCar =
  carId :: string
  name :: string
  licensePlate :: "string option"
  traccarDeviceId :: "int option"
  traccarUniqueId :: "string option"

record TraccarDevice =
  device_id :: int
  uniqueId :: "string option"
  positionId :: "int option"
  device_name :: "string option"

text \<open>
  Latitude, longitude, speed and course are JavaScript numbers that the gateway only
  copies; they are reals here.
\<close>

record TraccarPosition =
  position_id :: int
  deviceId :: int
  latitude :: real
  longitude :: real
  speed :: "real option"
  course :: "real option"
  fixTime :: "string option"
  deviceTime :: "string option"
  serverTime :: "string option"
  address :: "string option"

record NormalizedPosition =
  lat :: real
  lon :: real
  speed_n :: "real option"
  course_n :: "real option"
  fixTime_n :: "string option"
  address_n :: "string option"

record CarTrackingPayload =
  status :: TrackingStatus
  car :: "TrackedCar option"
  position :: "NormalizedPosition option"
  pollAfterSeconds :: int

text \<open>An entry of the fleet list: \<^verbatim>\<open>TrackedCar & { status; position? }\<close>.\<close>

record FleetCar = TrackedCar +
  car_status :: TrackingStatus
  car_position :: "NormalizedPosition option"

record FleetTrackingPayload =
  fleet_status :: TrackingStatus
  fleet_pollAfterSeconds :: int
  cars :: "FleetCar list"

text \<open>What \<^verbatim>\<open>res.status(code).send(payload)\<close> or \<^verbatim>\<open>res.json(payload)\<close> (code 200) sends.\<close>

record 'a response =
  http_code :: nat
  payload :: "'a"

text \<open>
  Thrown values: an axios error with the status of its response, if it has one, or another
  \<^verbatim>\<open>Error\<close>; both carry a message.
\<close>

datatype exn = AxiosError "nat option" string | JsError string

fun message :: "exn \<Rightarrow> string" where
  "message (AxiosError st m) = m"
| "message (JsError m) = m"

definition TRACCAR_NOT_CONFIGURED :: string where
  "TRACCAR_NOT_CONFIGURED = ''TRACCAR_NOT_CONFIGURED''"

text \<open>\<^verbatim>\<open>axios.isAxiosError(err) && err.response?.status === 404\<close>\<close>

fun is_404 :: "exn \<Rightarrow> bool" where
  "is_404 (AxiosError st m) = (st = Some 404)"
| "is_404 (JsError m) = False"

text \<open>\<^verbatim>\<open>err instanceof Error && err.message === traccarApi.TRACCAR_NOT_CONFIGURED\<close>\<close>

definition is_not_configured :: "exn \<Rightarrow> bool" where
  "is_not_configured err = (message err = TRACCAR_NOT_CONFIGURED)"

text \<open>
  What the gateway reads from outside: the environment, the identifier check of the helper
  module (outside the files modelled here, a parameter), the vehicle registry and the
  provider's HTTP interface. A registry or provider call either returns data or throws.
  The body of a provider response may be empty (\<open>None\<close>). The collection lists the
  vehicle documents in the order the registry returns them.
\<close>

record world =
  env :: env_config
  isValidObjectId :: "string \<Rightarrow> bool"
  findById :: "string \<Rightarrow> exn + Car option"
  collection :: "exn + Car list"
  api_devices :: "int option \<Rightarrow> exn + TraccarDevice option"
  api_positions :: "int \<Rightarrow> exn + TraccarPosition option"

text \<open>The calls a request makes to the registry and to the provider, in order.\<close>

datatype event =
    FindById string
  | FindMapped
  | GetDevices "int option"
  | GetPositions int

section \<open>Position normalizer and provider client\<close>

text \<open>\<^verbatim>\<open>a || b\<close> on optional strings.\<close>

definition or_else :: "string option \<Rightarrow> string option \<Rightarrow> string option" where
  "or_else a b = (if truthy_str a then a else b)"

definition normalizePosition :: "TraccarPosition \<Rightarrow> NormalizedPosition" where
  "normalizePosition p =
     \<lparr>lat = latitude p,
      lon = longitude p,
      speed_n = speed p,
      course_n = course p,
      fixTime_n = or_else (or_else (fixTime p) (deviceTime p)) (serverTime p),
      address_n = address p\<rparr>"

text \<open>\<^verbatim>\<open>getClient\<close> throws unless base URL, user and password are all truthy.\<close>

definition getClient :: "env_config \<Rightarrow> exn + unit" where
  "getClient e =
     (if truthy_str (TRACCAR_BASE_URL e) \<and> truthy_str (TRACCAR_USER e)
         \<and> truthy_str (TRACCAR_PASS e)
      then Inr ()
      else Inl (JsError TRACCAR_NOT_CONFIGURED))"

text \<open>
  \<^verbatim>\<open>getDevice\<close>: the argument is the vehicle's device id as it is at run time (the
  fleet loop casts it with \<^verbatim>\<open>as number\<close>, which checks nothing). A 404 of the provider
  becomes null, any other failure is thrown again.
\<close>

definition getDevice ::
  "world \<Rightarrow> int option \<Rightarrow> (exn + TraccarDevice option) \<times> event list" where
  "getDevice w devId =
     (case getClient (env w) of
        Inl err \<Rightarrow> (Inl err, [])
      | Inr u \<Rightarrow>
          (case api_devices w devId of
             Inr data \<Rightarrow> (Inr data, [GetDevices devId])
           | Inl err \<Rightarrow>
               if is_404 err then (Inr None, [GetDevices devId])
               else (Inl err, [GetDevices devId])))"

definition getPosition ::
  "world \<Rightarrow> int \<Rightarrow> (exn + NormalizedPosition option) \<times> event list" where
  "getPosition w pid =
     (case getClient (env w) of
        Inl err \<Rightarrow> (Inl err, [])
      | Inr u \<Rightarrow>
          (case api_positions w pid of
             Inr None \<Rightarrow> (Inr None, [GetPositions pid])
           | Inr (Some p) \<Rightarrow> (Inr (Some (normalizePosition p)), [GetPositions pid])
           | Inl err \<Rightarrow>
               if is_404 err then (Inr None, [GetPositions pid])
               else (Inl err, [GetPositions pid])))"

section \<open>Rate limiter\<close>

text \<open>
  \<^verbatim>\<open>const pollIntervalSeconds = env.TRACCAR_MIN_POLL_INTERVAL || 5\<close> and
  \<^verbatim>\<open>const pollIntervalMs = pollIntervalSeconds * 1000\<close>.
\<close>

definition pollIntervalSeconds :: "env_config \<Rightarrow> int" where
  "pollIntervalSeconds cfg =
     (case TRACCAR_MIN_POLL_INTERVAL cfg of
        None \<Rightarrow> 5
      | Some n \<Rightarrow> if n \<noteq> 0 then n else 5)"

definition pollIntervalMs :: "env_config \<Rightarrow> int" where
  "pollIntervalMs cfg = pollIntervalSeconds cfg * 1000"

text \<open>
  The ledger \<^verbatim>\<open>lastRequestByAdmin: Record<string, number>\<close>, a module-level object that
  starts empty. Every key the limiter builds contains a colon, so no key meets a property
  inherited from the object prototype.
\<close>

type_synonym ledger = "string \<rightharpoonup> int"

definition lastRequestByAdmin_init :: ledger where
  "lastRequestByAdmin_init = Map.empty"

definition ledger_key :: "string \<Rightarrow> string \<Rightarrow> string" where
  "ledger_key adminId scope = adminId @ '':'' @ scope"

text \<open>
  \<^verbatim>\<open>enforceRateLimit\<close>; the reading of \<^verbatim>\<open>Date.now()\<close> is the argument \<open>now\<close>, and the
  ledger is passed in and returned. The guard is \<^verbatim>\<open>last && now - last < pollIntervalMs\<close>:
  an absent entry and a stored time of 0 are both falsy, and the request is admitted.
\<close>

definition enforceRateLimit ::
  "env_config \<Rightarrow> string \<Rightarrow> string \<Rightarrow> int \<Rightarrow> ledger \<Rightarrow> bool \<times> ledger" where
  "enforceRateLimit cfg adminId scope now led =
     (let key = ledger_key adminId scope
      in case led key of
           None \<Rightarrow> (True, led(key \<mapsto> now))
         | Some t0 \<Rightarrow>
             if t0 \<noteq> 0 \<and> now - t0 < pollIntervalMs cfg
             then (False, led)
             else (True, led(key \<mapsto> now)))"

section \<open>Single-vehicle endpoint\<close>

text \<open>\<^verbatim>\<open>admin?.id || 'admin'\<close>: the caller identity used as the rate-limit partition.\<close>

definition callerId :: "string option \<Rightarrow> string" where
  "callerId admin =
     (case admin of
        None \<Rightarrow> ''admin''
      | Some a \<Rightarrow> if a \<noteq> [] then a else ''admin'')"

definition mapCar :: "Car \<Rightarrow> TrackedCar" where
  "mapCar c =
     \<lparr>carId = car_id c,
      name = car_name c,
      licensePlate = car_licensePlate c,
      traccarDeviceId = car_traccarDeviceId c,
      traccarUniqueId = car_traccarUniqueId c\<rparr>"

text \<open>
  The part of the \<^verbatim>\<open>try\<close> block of \<^verbatim>\<open>getCarTracking\<close> that runs once the vehicle
  document is found: the result is the response sent, or the value thrown, with the
  provider calls made up to there.
\<close>

definition resolveCar ::
  "world \<Rightarrow> Car \<Rightarrow> (exn + CarTrackingPayload response) \<times> event list" where
  "resolveCar w c =
     (if \<not> truthy_num (car_traccarDeviceId c) \<and> \<not> truthy_str (car_traccarUniqueId c)
      then (Inr \<lparr>http_code = 404,
                 payload = \<lparr>status = not_mapped, car = Some (mapCar c), position = None,
                            pollAfterSeconds = pollIntervalSeconds (env w)\<rparr>\<rparr>, [])
      else if \<not> truthy_num (car_traccarDeviceId c)
      then (Inr \<lparr>http_code = 404,
                 payload = \<lparr>status = not_mapped, car = Some (mapCar c), position = None,
                            pollAfterSeconds = pollIntervalSeconds (env w)\<rparr>\<rparr>, [])
      else
        (case getDevice w (car_traccarDeviceId c) of
           (Inl err, evs) \<Rightarrow> (Inl err, evs)
         | (Inr None, evs) \<Rightarrow>
             (Inr \<lparr>http_code = 404,
                   payload = \<lparr>status = device_not_found, car = Some (mapCar c),
                              position = None,
                              pollAfterSeconds = pollIntervalSeconds (env w)\<rparr>\<rparr>, evs)
         | (Inr (Some device), evs) \<Rightarrow>
             (case positionId device of
                None \<Rightarrow>
                  (Inr \<lparr>http_code = 200,
                        payload = \<lparr>status = no_fix_yet, car = Some (mapCar c),
                                   position = None,
                                   pollAfterSeconds = pollIntervalSeconds (env w)\<rparr>\<rparr>, evs)
              | Some pid \<Rightarrow>
                  if pid = 0
                  then (Inr \<lparr>http_code = 200,
                             payload = \<lparr>status = no_fix_yet, car = Some (mapCar c),
                                        position = None,
                                        pollAfterSeconds = pollIntervalSeconds (env w)\<rparr>\<rparr>, evs)
                  else
                    (case getPosition w pid of
                       (Inl err, evs') \<Rightarrow> (Inl err, evs @ evs')
                     | (Inr None, evs') \<Rightarrow>
                         (Inr \<lparr>http_code = 200,
                               payload = \<lparr>status = no_fix_yet, car = Some (mapCar c),
                                          position = None,
                                          pollAfterSeconds = pollIntervalSeconds (env w)\<rparr>\<rparr>,
                          evs @ evs')
                     | (Inr (Some pos), evs') \<Rightarrow>
                         (Inr \<lparr>http_code = 200,
                               payload = \<lparr>status = ok, car = Some (mapCar c),
                                          position = Some pos,
                                          pollAfterSeconds = pollIntervalSeconds (env w)\<rparr>\<rparr>,
                          evs @ evs')))))"

text \<open>The whole \<^verbatim>\<open>try\<close> block: the registry lookup, then the resolution.\<close>

definition tryCar ::
  "world \<Rightarrow> string \<Rightarrow> (exn + CarTrackingPayload response) \<times> event list" where
  "tryCar w cid =
     (case findById w cid of
        Inl err \<Rightarrow> (Inl err, [FindById cid])
      | Inr None \<Rightarrow>
          (Inr \<lparr>http_code = 404,
                payload = \<lparr>status = car_not_found, car = None, position = None,
                           pollAfterSeconds = pollIntervalSeconds (env w)\<rparr>\<rparr>,
           [FindById cid])
      | Inr (Some c) \<Rightarrow>
          (case resolveCar w c of (r, evs) \<Rightarrow> (r, FindById cid # evs)))"

text \<open>
  \<^verbatim>\<open>getCarTracking\<close>: the response, the registry and provider calls made, and the ledger
  afterwards. \<open>now\<close> is the reading of the clock, \<open>admin\<close> the id the guard left in
  \<^verbatim>\<open>res.locals.admin\<close>, \<open>cid\<close> the path parameter.
\<close>

definition getCarTracking ::
  "world \<Rightarrow> int \<Rightarrow> string option \<Rightarrow> string \<Rightarrow> ledger
     \<Rightarrow> CarTrackingPayload response \<times> event list \<times> ledger" where
  "getCarTracking w now admin cid led =
     (if \<not> isValidObjectId w cid
      then (\<lparr>http_code = 400,
              payload = \<lparr>status = car_not_found, car = None, position = None,
                         pollAfterSeconds = pollIntervalSeconds (env w)\<rparr>\<rparr>, [], led)
      else
        (case enforceRateLimit (env w) (callerId admin) (''car-'' @ cid) now led of
           (False, led') \<Rightarrow>
             (\<lparr>http_code = 429,
               payload = \<lparr>status = rate_limited, car = None, position = None,
                          pollAfterSeconds = pollIntervalSeconds (env w)\<rparr>\<rparr>, [], led')
         | (True, led') \<Rightarrow>
             (case tryCar w cid of
                (Inr r, evs) \<Rightarrow> (r, evs, led')
              | (Inl err, evs) \<Rightarrow>
                  if is_not_configured err
                  then (\<lparr>http_code = 503,
                          payload = \<lparr>status = traccar_not_configured, car = None,
                                     position = None,
                                     pollAfterSeconds = pollIntervalSeconds (env w)\<rparr>\<rparr>,
                        evs, led')
                  else (\<lparr>http_code = 502,
                          payload = \<lparr>status = traccar_error, car = None, position = None,
                                     pollAfterSeconds = pollIntervalSeconds (env w)\<rparr>\<rparr>,
                        evs, led'))))"

section \<open>Fleet endpoint\<close>

text \<open>The spread \<^verbatim>\<open>{ ...trackedCar, status, position }\<close> pushed onto the list.\<close>

definition fleetEntry ::
  "TrackedCar \<Rightarrow> TrackingStatus \<Rightarrow> NormalizedPosition option \<Rightarrow> FleetCar" where
  "fleetEntry t st pos =
     \<lparr>carId = carId t, name = name t, licensePlate = licensePlate t,
      traccarDeviceId = traccarDeviceId t, traccarUniqueId = traccarUniqueId t,
      car_status = st, car_position = pos\<rparr>"

text \<open>
  The query \<^verbatim>\<open>{ traccarDeviceId: { $exists: true, $ne: null } }\<close>: the documents whose
  device id is neither missing nor null, in the order of the collection.
\<close>

definition mappedCars :: "Car list \<Rightarrow> Car list" where
  "mappedCars docs = filter (\<lambda>c. car_traccarDeviceId c \<noteq> None) docs"

text \<open>
  The inner \<^verbatim>\<open>try\<close> block of the loop for one vehicle: the entry it pushes, or the
  value thrown.
\<close>

definition fleetCar :: "world \<Rightarrow> Car \<Rightarrow> (exn + FleetCar) \<times> event list" where
  "fleetCar w c =
     (case getDevice w (car_traccarDeviceId c) of
        (Inl err, evs) \<Rightarrow> (Inl err, evs)
      | (Inr None, evs) \<Rightarrow> (Inr (fleetEntry (mapCar c) device_not_found None), evs)
      | (Inr (Some device), evs) \<Rightarrow>
          (case positionId device of
             None \<Rightarrow> (Inr (fleetEntry (mapCar c) no_fix_yet None), evs)
           | Some pid \<Rightarrow>
               if pid = 0 then (Inr (fleetEntry (mapCar c) no_fix_yet None), evs)
               else
                 (case getPosition w pid of
                    (Inl err, evs') \<Rightarrow> (Inl err, evs @ evs')
                  | (Inr None, evs') \<Rightarrow>
                      (Inr (fleetEntry (mapCar c) no_fix_yet None), evs @ evs')
                  | (Inr (Some pos), evs') \<Rightarrow>
                      (Inr (fleetEntry (mapCar c) ok (Some pos)), evs @ evs'))))"

text \<open>
  The loop over the loaded vehicles, with the list built so far and the calls made so far.
  The result is \<open>None\<close> when the loop sends the 503 response and returns.
\<close>

fun fleetLoop ::
  "world \<Rightarrow> Car list \<Rightarrow> FleetCar list \<Rightarrow> event list \<Rightarrow> FleetCar list option \<times> event list"
  where
  "fleetLoop w [] acc evs = (Some acc, evs)"
| "fleetLoop w (c # rest) acc evs =
     (case fleetCar w c of
        (Inr entry, evs') \<Rightarrow> fleetLoop w rest (acc @ [entry]) (evs @ evs')
      | (Inl err, evs') \<Rightarrow>
          if is_not_configured err then (None, evs @ evs')
          else fleetLoop w rest (acc @ [fleetEntry (mapCar c) traccar_error None])
                 (evs @ evs'))"

definition getFleetTracking ::
  "world \<Rightarrow> int \<Rightarrow> string option \<Rightarrow> ledger
     \<Rightarrow> FleetTrackingPayload response \<times> event list \<times> ledger" where
  "getFleetTracking w now admin led =
     (case enforceRateLimit (env w) (callerId admin) ''fleet'' now led of
        (False, led') \<Rightarrow>
          (\<lparr>http_code = 429,
            payload = \<lparr>fleet_status = rate_limited,
                       fleet_pollAfterSeconds = pollIntervalSeconds (env w),
                       cars = []\<rparr>\<rparr>, [], led')
      | (True, led') \<Rightarrow>
          (case collection w of
             Inl err \<Rightarrow>
               if is_not_configured err
               then (\<lparr>http_code = 503,
                       payload = \<lparr>fleet_status = traccar_not_configured,
                                  fleet_pollAfterSeconds = pollIntervalSeconds (env w),
                                  cars = []\<rparr>\<rparr>, [FindMapped], led')
               else (\<lparr>http_code = 502,
                       payload = \<lparr>fleet_status = traccar_error,
                                  fleet_pollAfterSeconds = pollIntervalSeconds (env w),
                                  cars = []\<rparr>\<rparr>, [FindMapped], led')
           | Inr docs \<Rightarrow>
               (case fleetLoop w (mappedCars docs) [] [FindMapped] of
                  (None, evs) \<Rightarrow>
                    (\<lparr>http_code = 503,
                      payload = \<lparr>fleet_status = traccar_not_configured,
                                 fleet_pollAfterSeconds = pollIntervalSeconds (env w),
                                 cars = []\<rparr>\<rparr>, evs, led')
                | (Some entries, evs) \<Rightarrow>
                    (\<lparr>http_code = 200,
                      payload = \<lparr>fleet_status = ok,
                                 fleet_pollAfterSeconds = pollIntervalSeconds (env w),
                                 cars = entries\<rparr>\<rparr>, evs, led'))))"

text \<open>
  The two \<^verbatim>\<open>catch\<close> blocks of the endpoints, as functions of what the \<^verbatim>\<open>try\<close> block
  returned or threw; they restate the last case distinction of \<open>getCarTracking\<close> and
  \<open>getFleetTracking\<close> for use in the proofs.
\<close>

definition catchCar ::
  "world \<Rightarrow> exn + CarTrackingPayload response \<Rightarrow> CarTrackingPayload response" where
  "catchCar w r =
     (case r of
        Inr resp \<Rightarrow> resp
      | Inl err \<Rightarrow>
          if is_not_configured err
          then \<lparr>http_code = 503,
                 payload = \<lparr>status = traccar_not_configured, car = None, position = None,
                            pollAfterSeconds = pollIntervalSeconds (env w)\<rparr>\<rparr>
          else \<lparr>http_code = 502,
                 payload = \<lparr>status = traccar_error, car = None, position = None,
                            pollAfterSeconds = pollIntervalSeconds (env w)\<rparr>\<rparr>)"

definition tryFleet ::
  "world \<Rightarrow> FleetTrackingPayload response \<times> event list" where
  "tryFleet w =
     (case collection w of
        Inl err \<Rightarrow>
          if is_not_configured err
          then (\<lparr>http_code = 503,
                  payload = \<lparr>fleet_status = traccar_not_configured,
                             fleet_pollAfterSeconds = pollIntervalSeconds (env w),
                             cars = []\<rparr>\<rparr>, [FindMapped])
          else (\<lparr>http_code = 502,
                  payload = \<lparr>fleet_status = traccar_error,
                             fleet_pollAfterSeconds = pollIntervalSeconds (env w),
                             cars = []\<rparr>\<rparr>, [FindMapped])
      | Inr docs \<Rightarrow>
          (case fst (fleetLoop w (mappedCars docs) [] [FindMapped]) of
             None \<Rightarrow>
               (\<lparr>http_code = 503,
                 payload = \<lparr>fleet_status = traccar_not_configured,
                            fleet_pollAfterSeconds = pollIntervalSeconds (env w),
                            cars = []\<rparr>\<rparr>,
                snd (fleetLoop w (mappedCars docs) [] [FindMapped]))
           | Some entries \<Rightarrow>
               (\<lparr>http_code = 200,
                 payload = \<lparr>fleet_status = ok,
                            fleet_pollAfterSeconds = pollIntervalSeconds (env w),
                            cars = entries\<rparr>\<rparr>,
                snd (fleetLoop w (mappedCars docs) [] [FindMapped]))))"

text \<open>Names for the three components of what an endpoint returns.\<close>

definition carResponse ::
  "world \<Rightarrow> int \<Rightarrow> string option \<Rightarrow> string \<Rightarrow> ledger \<Rightarrow> CarTrackingPayload response" where
  "carResponse w now admin cid led = fst (getCarTracking w now admin cid led)"

definition carCalls ::
  "world \<Rightarrow> int \<Rightarrow> string option \<Rightarrow> string \<Rightarrow> ledger \<Rightarrow> event list" where
  "carCalls w now admin cid led = fst (snd (getCarTracking w now admin cid led))"

definition carLedger ::
  "world \<Rightarrow> int \<Rightarrow> string option \<Rightarrow> string \<Rightarrow> ledger \<Rightarrow> ledger" where
  "carLedger w now admin cid led = snd (snd (getCarTracking w now admin cid led))"

definition fleetResponse ::
  "world \<Rightarrow> int \<Rightarrow> string option \<Rightarrow> ledger \<Rightarrow> FleetTrackingPayload response" where
  "fleetResponse w now admin led = fst (getFleetTracking w now admin led)"

definition fleetCalls ::
  "world \<Rightarrow> int \<Rightarrow> string option \<Rightarrow> ledger \<Rightarrow> event list" where
  "fleetCalls w now admin led = fst (snd (getFleetTracking w now admin led))"

definition fleetLedger ::
  "world \<Rightarrow> int \<Rightarrow> string option \<Rightarrow> ledger \<Rightarrow> ledger" where
  "fleetLedger w now admin led = snd (snd (getFleetTracking w now admin led))"

section \<open>Concrete inputs\<close>

text \<open>
  The environment with nothing configured; a provider configured with an interval of 5
  seconds, of 10 seconds, and of 0 seconds.
\<close>

definition env_unset :: env_config where
  "env_unset =
     \<lparr>TRACCAR_BASE_URL = None, TRACCAR_USER = None, TRACCAR_PASS = None,
      TRACCAR_MIN_POLL_INTERVAL = None\<rparr>"

definition env_demo :: env_config where
  "env_demo =
     \<lparr>TRACCAR_BASE_URL = Some ''http://traccar:8082'', TRACCAR_USER = Some ''admin'',
      TRACCAR_PASS = Some ''admin'', TRACCAR_MIN_POLL_INTERVAL = Some 5\<rparr>"

definition env_slow :: env_config where
  "env_slow = env_demo\<lparr>TRACCAR_MIN_POLL_INTERVAL := Some 10\<rparr>"

definition env_zero :: env_config where
  "env_zero = env_demo\<lparr>TRACCAR_MIN_POLL_INTERVAL := Some 0\<rparr>"

text \<open>
  A small fleet: V1 is mapped to device 42 whose latest position is 900, V2 to device 43
  for which the provider answers 500, V3 to device 44 which the provider does not know, V4
  to device 45 which has no position yet; V5 carries the device id 0, V6 only a unique id;
  V7 is mapped to device 46 whose latest position 901 the provider does not know.
\<close>

definition car_V1 :: Car where
  "car_V1 = \<lparr>car_id = ''v1'', car_name = ''V1'', car_licensePlate = Some ''AB-123'',
             car_traccarDeviceId = Some 42, car_traccarUniqueId = Some ''imei-42''\<rparr>"

definition car_V2 :: Car where
  "car_V2 = \<lparr>car_id = ''v2'', car_name = ''V2'', car_licensePlate = None,
             car_traccarDeviceId = Some 43, car_traccarUniqueId = None\<rparr>"

definition car_V3 :: Car where
  "car_V3 = \<lparr>car_id = ''v3'', car_name = ''V3'', car_licensePlate = None,
             car_traccarDeviceId = Some 44, car_traccarUniqueId = None\<rparr>"

definition car_V4 :: Car where
  "car_V4 = \<lparr>car_id = ''v4'', car_name = ''V4'', car_licensePlate = None,
             car_traccarDeviceId = Some 45, car_traccarUniqueId = None\<rparr>"

definition car_V5 :: Car where
  "car_V5 = \<lparr>car_id = ''v5'', car_name = ''V5'', car_licensePlate = None,
             car_traccarDeviceId = Some 0, car_traccarUniqueId = Some ''imei-0''\<rparr>"

definition car_V6 :: Car where
  "car_V6 = \<lparr>car_id = ''v6'', car_name = ''V6'', car_licensePlate = None,
             car_traccarDeviceId = None, car_traccarUniqueId = Some ''imei-6''\<rparr>"

definition car_V7 :: Car where
  "car_V7 = \<lparr>car_id = ''v7'', car_name = ''V7'', car_licensePlate = None,
             car_traccarDeviceId = Some 46, car_traccarUniqueId = None\<rparr>"

definition device_42 :: TraccarDevice where
  "device_42 = \<lparr>device_id = 42, uniqueId = Some ''imei-42'', positionId = Some 900,
                device_name = Some ''tracker''\<rparr>"

definition device_45 :: TraccarDevice where
  "device_45 = \<lparr>device_id = 45, uniqueId = None, positionId = None, device_name = None\<rparr>"

definition device_46 :: TraccarDevice where
  "device_46 = \<lparr>device_id = 46, uniqueId = None, positionId = Some 901, device_name = None\<rparr>"

definition position_900 :: TraccarPosition where
  "position_900 =
     \<lparr>position_id = 900, deviceId = 42, latitude = 51.5, longitude = - 0.12,
      speed = Some 10, course = None, fixTime = Some ''t0'', deviceTime = Some ''t1'',
      serverTime = Some ''t2'', address = None\<rparr>"

definition position_nofix :: TraccarPosition where
  "position_nofix = position_900\<lparr>fixTime := None\<rparr>"

definition position_server :: TraccarPosition where
  "position_server = position_900\<lparr>fixTime := None, deviceTime := None\<rparr>"

definition position_emptyfix :: TraccarPosition where
  "position_emptyfix = position_900\<lparr>fixTime := Some []\<rparr>"

definition demo_findById :: "string \<Rightarrow> exn + Car option" where
  "demo_findById cid =
     (if cid = ''v1'' then Inr (Some car_V1)
      else if cid = ''v2'' then Inr (Some car_V2)
      else if cid = ''v3'' then Inr (Some car_V3)
      else if cid = ''v4'' then Inr (Some car_V4)
      else if cid = ''v5'' then Inr (Some car_V5)
      else if cid = ''v6'' then Inr (Some car_V6)
      else if cid = ''v7'' then Inr (Some car_V7)
      else Inr None)"

definition demo_devices :: "int option \<Rightarrow> exn + TraccarDevice option" where
  "demo_devices d =
     (if d = Some 42 then Inr (Some device_42)
      else if d = Some 45 then Inr (Some device_45)
      else if d = Some 46 then Inr (Some device_46)
      else if d = Some 43 then Inl (AxiosError (Some 500) ''Request failed with status code 500'')
      else Inl (AxiosError (Some 404) ''Request failed with status code 404''))"

definition demo_positions :: "int \<Rightarrow> exn + TraccarPosition option" where
  "demo_positions p =
     (if p = 900 then Inr (Some position_900)
      else Inl (AxiosError (Some 404) ''Request failed with status code 404''))"

text \<open>In the demo registry an identifier is well-formed when it has two characters.\<close>

definition demo_world :: world where
  "demo_world =
     \<lparr>env = env_demo,
      isValidObjectId = (\<lambda>cid. length cid = 2),
      findById = demo_findById,
      collection = Inr [car_V1, car_V2, car_V6, car_V3, car_V4, car_V5, car_V7],
      api_devices = demo_devices,
      api_positions = demo_positions\<rparr>"

definition demo_world_unset :: world where
  "demo_world_unset = demo_world\<lparr>env := env_unset\<rparr>"

definition demo_world_slow :: world where
  "demo_world_slow = demo_world\<lparr>env := env_slow\<rparr>"

definition demo_world_zero :: world where
  "demo_world_zero = demo_world\<lparr>env := env_zero\<rparr>"

text \<open>The definitions that evaluating a request on the demo fleet unfolds.\<close>

lemmas demo_defs =
  demo_world_def demo_world_unset_def demo_world_slow_def demo_world_zero_def
  env_demo_def env_unset_def env_slow_def env_zero_def demo_findById_def
  demo_devices_def demo_positions_def car_V1_def car_V2_def car_V3_def car_V4_def
  car_V5_def car_V6_def car_V7_def device_42_def device_45_def device_46_def

lemmas run_defs =
  getCarTracking_def getFleetTracking_def tryCar_def resolveCar_def fleetCar_def
  getDevice_def getPosition_def getClient_def enforceRateLimit_def ledger_key_def
  callerId_def truthy_num_def truthy_str_def mappedCars_def is_not_configured_def
  TRACCAR_NOT_CONFIGURED_def pollIntervalMs_def pollIntervalSeconds_def
  lastRequestByAdmin_init_def mapCar_def fleetEntry_def
  carResponse_def carCalls_def carLedger_def fleetResponse_def fleetCalls_def
  fleetLedger_def

section \<open>Rate limiter: properties\<close>

lemma ledger_key_inj: "ledger_key a s = ledger_key a s' \<longleftrightarrow> s = s'"
  by (simp add: ledger_key_def)

lemma enforceRateLimit_cases:
  "enforceRateLimit cfg a s now led =
     (case led (ledger_key a s) of
        None \<Rightarrow> (True, led(ledger_key a s \<mapsto> now))
      | Some t0 \<Rightarrow>
          if t0 \<noteq> 0 \<and> now - t0 < pollIntervalMs cfg then (False, led)
          else (True, led(ledger_key a s \<mapsto> now)))"
  by (simp add: enforceRateLimit_def Let_def)

lemma erl_key_only:
  "led (ledger_key a s) = led' (ledger_key a s) \<Longrightarrow>
     fst (enforceRateLimit cfg a s now led) = fst (enforceRateLimit cfg a s now led')"
  by (simp add: enforceRateLimit_cases split: option.split)

lemma erl_other_key:
  "k \<noteq> ledger_key a s \<Longrightarrow> snd (enforceRateLimit cfg a s now led) k = led k"
  by (simp add: enforceRateLimit_cases split: option.split)

lemma erl_admitted_records:
  "fst (enforceRateLimit cfg a s now led) \<Longrightarrow>
     snd (enforceRateLimit cfg a s now led) = led(ledger_key a s \<mapsto> now)"
  by (auto simp add: enforceRateLimit_cases split: option.splits if_splits)

lemma erl_rejected_unchanged:
  "\<not> fst (enforceRateLimit cfg a s now led) \<Longrightarrow>
     snd (enforceRateLimit cfg a s now led) = led"
  by (auto simp add: enforceRateLimit_cases split: option.splits if_splits)

lemma pollIntervalSeconds_config:
  "pollIntervalSeconds cfg =
     (case TRACCAR_MIN_POLL_INTERVAL cfg of None \<Rightarrow> 5 | Some n \<Rightarrow> if n = 0 then 5 else n)"
  by (simp add: pollIntervalSeconds_def split: option.split)

lemma pollIntervalMs_config:
  "pollIntervalMs cfg =
     (case TRACCAR_MIN_POLL_INTERVAL cfg of
        None \<Rightarrow> 5000
      | Some n \<Rightarrow> if n = 0 then 5000 else 1000 * n)"
  by (simp add: pollIntervalMs_def pollIntervalSeconds_def split: option.split)

lemma erl_no_zero_entry:
  "0 \<notin> ran led \<Longrightarrow> now \<noteq> 0 \<Longrightarrow> 0 \<notin> ran (snd (enforceRateLimit cfg a s now led))"
  by (auto simp add: enforceRateLimit_cases ran_def split: option.splits if_splits)

text \<open>
  Claim C1, as stated, fails on the code where the interval is configured as 0. The
  constant is \<^verbatim>\<open>env.TRACCAR_MIN_POLL_INTERVAL || 5\<close>, so a configured 0 gives the default
  of 5 seconds: after a request admitted at 1000 the request at 2000 is rejected, although
  1000 ms have passed and the configured minimum interval is 0.
\<close>

theorem enforceRateLimit_zero_interval_counterexample:
  "TRACCAR_MIN_POLL_INTERVAL env_zero = Some 0
   \<and> fst (enforceRateLimit env_zero ''admin'' ''fleet'' 1000 lastRequestByAdmin_init)
   \<and> snd (enforceRateLimit env_zero ''admin'' ''fleet'' 1000 lastRequestByAdmin_init)
        (ledger_key ''admin'' ''fleet'') = Some 1000
   \<and> \<not> fst (enforceRateLimit env_zero ''admin'' ''fleet'' 2000
        (snd (enforceRateLimit env_zero ''admin'' ''fleet'' 1000 lastRequestByAdmin_init)))
   \<and> (0::int) * 1000 \<le> 2000 - 1000"
  by (simp add: enforceRateLimit_cases lastRequestByAdmin_init_def ledger_key_def
      pollIntervalMs_def pollIntervalSeconds_def env_zero_def env_demo_def)

text \<open>
  Claim C1, amended. Request times are readings of the clock, which are not 0, and so are
  the times in the ledger. For every key (caller identity and scope) and every such
  request time \<open>now\<close>, the limiter returns true and records \<open>now\<close> for the key iff no
  prior accepted time exists for the key or \<open>now\<close> minus the prior accepted time is at
  least the minimum interval in force; otherwise it returns false and leaves the ledger as
  it is. The interval in force is the configured number of seconds where one other than 0
  is configured, and the default of 5 seconds where none or 0 is configured. The ledger
  keeps holding times other than 0. Consequently the first request for a key is admitted,
  and after an admitted request a second request for the same key is rejected within the
  interval and admitted once the interval has passed.
\<close>

theorem enforceRateLimit_admit:
  assumes "0 \<notin> ran led" and "now \<noteq> 0"
  shows
  "enforceRateLimit cfg a s now led =
     (if led (ledger_key a s) = None
         \<or> (\<exists>t0. led (ledger_key a s) = Some t0 \<and> pollIntervalMs cfg \<le> now - t0)
      then (True, led(ledger_key a s \<mapsto> now)) else (False, led))
   \<and> pollIntervalMs cfg =
       (case TRACCAR_MIN_POLL_INTERVAL cfg of
          None \<Rightarrow> 5000
        | Some n \<Rightarrow> if n = 0 then 5000 else 1000 * n)
   \<and> 0 \<notin> ran (snd (enforceRateLimit cfg a s now led))
   \<and> (led (ledger_key a s) = None \<longrightarrow> fst (enforceRateLimit cfg a s now led))
   \<and> (fst (enforceRateLimit cfg a s now led) \<longrightarrow>
        fst (enforceRateLimit cfg a s t2 (snd (enforceRateLimit cfg a s now led)))
          = (pollIntervalMs cfg \<le> t2 - now))"
proof -
  have nz: "led (ledger_key a s) \<noteq> Some 0"
    using assms(1) by (auto simp add: ran_def)
  have main: "enforceRateLimit cfg a s now led =
     (if led (ledger_key a s) = None
         \<or> (\<exists>t0. led (ledger_key a s) = Some t0 \<and> pollIntervalMs cfg \<le> now - t0)
      then (True, led(ledger_key a s \<mapsto> now)) else (False, led))"
    using nz by (auto simp add: enforceRateLimit_cases split: option.split)
  have inv: "0 \<notin> ran (snd (enforceRateLimit cfg a s now led))"
    using assms by (rule erl_no_zero_entry)
  have fresh: "led (ledger_key a s) = None \<longrightarrow> fst (enforceRateLimit cfg a s now led)"
    by (simp add: enforceRateLimit_cases)
  have second: "fst (enforceRateLimit cfg a s t2 (snd (enforceRateLimit cfg a s now led)))
          = (pollIntervalMs cfg \<le> t2 - now)"
    if adm: "fst (enforceRateLimit cfg a s now led)"
  proof -
    have "snd (enforceRateLimit cfg a s now led) = led(ledger_key a s \<mapsto> now)"
      using adm by (rule erl_admitted_records)
    then show ?thesis
      using assms(2) by (auto simp add: enforceRateLimit_cases)
  qed
  show ?thesis
    using main inv fresh second pollIntervalMs_config [of cfg] by blast
qed

text \<open>
  Witness for C1: with an interval of 10 seconds configured, on the empty ledger a request
  at 1000 is admitted, a second one at 7000 is rejected and one at 11000 admitted; with
  nothing configured the interval is 5000 ms.
\<close>

theorem enforceRateLimit_admit_witness:
  "pollIntervalMs env_slow = 10000
   \<and> pollIntervalMs env_unset = 5000
   \<and> fst (enforceRateLimit env_slow ''admin'' ''fleet'' 1000 lastRequestByAdmin_init)
   \<and> \<not> fst (enforceRateLimit env_slow ''admin'' ''fleet'' 7000
        (snd (enforceRateLimit env_slow ''admin'' ''fleet'' 1000 lastRequestByAdmin_init)))
   \<and> fst (enforceRateLimit env_slow ''admin'' ''fleet'' 11000
        (snd (enforceRateLimit env_slow ''admin'' ''fleet'' 1000 lastRequestByAdmin_init)))"
proof -
  have inv: "0 \<notin> ran lastRequestByAdmin_init"
    by (simp add: lastRequestByAdmin_init_def)
  have clock: "(1000::int) \<noteq> 0" by simp
  have fresh: "lastRequestByAdmin_init (ledger_key ''admin'' ''fleet'') = None"
    by (simp add: lastRequestByAdmin_init_def)
  have cfg: "TRACCAR_MIN_POLL_INTERVAL env_slow = Some 10"
    "TRACCAR_MIN_POLL_INTERVAL env_unset = None"
    by (simp_all add: env_slow_def env_demo_def env_unset_def)
  note slow = enforceRateLimit_admit [OF inv clock, where cfg = env_slow and a = "''admin''"
      and s = "''fleet''"]
  have ms: "pollIntervalMs env_slow = 10000"
    using slow [of 7000] cfg(1) by simp
  have ms': "pollIntervalMs env_unset = 5000"
    using enforceRateLimit_admit [OF inv clock, where cfg = env_unset and a = "''admin''"
      and s = "''fleet''" and ?t2.0 = 7000] cfg(2) by simp
  have a1: "fst (enforceRateLimit env_slow ''admin'' ''fleet'' 1000 lastRequestByAdmin_init)"
    using slow [of 7000] fresh by blast
  have a2: "fst (enforceRateLimit env_slow ''admin'' ''fleet'' 7000
        (snd (enforceRateLimit env_slow ''admin'' ''fleet'' 1000 lastRequestByAdmin_init)))
       = (pollIntervalMs env_slow \<le> 7000 - 1000)"
    using slow [of 7000] a1 by blast
  have a3: "fst (enforceRateLimit env_slow ''admin'' ''fleet'' 11000
        (snd (enforceRateLimit env_slow ''admin'' ''fleet'' 1000 lastRequestByAdmin_init)))
       = (pollIntervalMs env_slow \<le> 11000 - 1000)"
    using slow [of 11000] a1 by blast
  show ?thesis using ms ms' a1 a2 a3 by simp
qed

section \<open>Position normalizer: properties\<close>

text \<open>
  Claim C6, as stated, fails on the code: the timestamp is chosen with \<^verbatim>\<open>||\<close>, which
  passes over an empty string as it passes over an absent field. A position whose
  \<^verbatim>\<open>fixTime\<close> is present but empty is given its device time.
\<close>

theorem normalizePosition_counterexample:
  "fixTime position_emptyfix = Some []
   \<and> deviceTime position_emptyfix = Some ''t1''
   \<and> fixTime_n (normalizePosition position_emptyfix) = Some ''t1''
   \<and> fixTime_n (normalizePosition position_emptyfix) \<noteq> fixTime position_emptyfix"
  by (simp add: normalizePosition_def or_else_def truthy_str_def position_emptyfix_def
      position_900_def)

text \<open>
  Claim C6, amended. For every provider position the normalized result has the same
  latitude, longitude, optional speed, optional course and optional address, and its
  timestamp is the fix time if that is present and not empty, else the device time if that
  is present and not empty, else the server time. In particular a position without
  \<^verbatim>\<open>fixTime\<close> and with a non-empty \<^verbatim>\<open>deviceTime\<close> normalizes to the device time, and
  one without both normalizes to the server time.
\<close>

theorem normalizePosition_fields:
  "lat (normalizePosition p) = latitude p
   \<and> lon (normalizePosition p) = longitude p
   \<and> speed_n (normalizePosition p) = speed p
   \<and> course_n (normalizePosition p) = course p
   \<and> address_n (normalizePosition p) = address p
   \<and> fixTime_n (normalizePosition p) =
       (if truthy_str (fixTime p) then fixTime p
        else if truthy_str (deviceTime p) then deviceTime p
        else serverTime p)
   \<and> (fixTime p = None \<and> truthy_str (deviceTime p) \<longrightarrow>
        fixTime_n (normalizePosition p) = deviceTime p)
   \<and> (fixTime p = None \<and> deviceTime p = None \<longrightarrow>
        fixTime_n (normalizePosition p) = serverTime p)"
  by (simp add: normalizePosition_def or_else_def truthy_str_def)

text \<open>
  Witness for C6: the position 900 without its fix time normalizes to the device time,
  and without fix and device time to the server time.
\<close>

theorem normalizePosition_fields_witness:
  "fixTime_n (normalizePosition position_nofix) = Some ''t1''
   \<and> fixTime_n (normalizePosition position_server) = Some ''t2''
   \<and> lat (normalizePosition position_nofix) = 51.5"
proof -
  have h1: "fixTime position_nofix = None \<and> truthy_str (deviceTime position_nofix)"
    by (simp add: position_nofix_def position_900_def truthy_str_def)
  have h2: "fixTime position_server = None \<and> deviceTime position_server = None"
    by (simp add: position_server_def position_900_def)
  have "fixTime_n (normalizePosition position_nofix) = deviceTime position_nofix"
    using normalizePosition_fields [of position_nofix] h1 by blast
  moreover have "fixTime_n (normalizePosition position_server) = serverTime position_server"
    using normalizePosition_fields [of position_server] h2 by blast
  moreover have "lat (normalizePosition position_nofix) = latitude position_nofix"
    using normalizePosition_fields [of position_nofix] by blast
  ultimately show ?thesis
    by (simp add: position_nofix_def position_server_def position_900_def)
qed

section \<open>Endpoints: auxiliary lemmas\<close>

lemma getCarTracking_alt:
  "getCarTracking w now admin cid led =
     (if \<not> isValidObjectId w cid
      then (\<lparr>http_code = 400,
              payload = \<lparr>status = car_not_found, car = None, position = None,
                         pollAfterSeconds = pollIntervalSeconds (env w)\<rparr>\<rparr>, [], led)
      else if \<not> fst (enforceRateLimit (env w) (callerId admin) (''car-'' @ cid) now led)
      then (\<lparr>http_code = 429,
               payload = \<lparr>status = rate_limited, car = None, position = None,
                          pollAfterSeconds = pollIntervalSeconds (env w)\<rparr>\<rparr>, [],
            snd (enforceRateLimit (env w) (callerId admin) (''car-'' @ cid) now led))
      else (catchCar w (fst (tryCar w cid)), snd (tryCar w cid),
            snd (enforceRateLimit (env w) (callerId admin) (''car-'' @ cid) now led)))"
  by (cases "enforceRateLimit (env w) (callerId admin) (''car-'' @ cid) now led";
      cases "tryCar w cid")
     (simp add: getCarTracking_def catchCar_def split: sum.split)

lemma getFleetTracking_alt:
  "getFleetTracking w now admin led =
     (if \<not> fst (enforceRateLimit (env w) (callerId admin) ''fleet'' now led)
      then (\<lparr>http_code = 429,
               payload = \<lparr>fleet_status = rate_limited,
                          fleet_pollAfterSeconds = pollIntervalSeconds (env w),
                          cars = []\<rparr>\<rparr>, [],
            snd (enforceRateLimit (env w) (callerId admin) ''fleet'' now led))
      else (fst (tryFleet w), snd (tryFleet w),
            snd (enforceRateLimit (env w) (callerId admin) ''fleet'' now led)))"
  by (cases "enforceRateLimit (env w) (callerId admin) ''fleet'' now led")
     (simp add: getFleetTracking_def tryFleet_def split: sum.split option.split prod.split)

lemma getCarTracking_response_key_only:
  "led (ledger_key (callerId admin) (''car-'' @ cid)) = led' (ledger_key (callerId admin) (''car-'' @ cid))
   \<Longrightarrow> fst (getCarTracking w now admin cid led) = fst (getCarTracking w now admin cid led')
     \<and> fst (snd (getCarTracking w now admin cid led)) = fst (snd (getCarTracking w now admin cid led'))"
  using erl_key_only [of led "callerId admin" "''car-'' @ cid" led' "env w" now]
  by (simp add: getCarTracking_alt)

lemma getFleetTracking_response_key_only:
  "led (ledger_key (callerId admin) ''fleet'') = led' (ledger_key (callerId admin) ''fleet'')
   \<Longrightarrow> fst (getFleetTracking w now admin led) = fst (getFleetTracking w now admin led')
     \<and> fst (snd (getFleetTracking w now admin led)) = fst (snd (getFleetTracking w now admin led'))"
  using erl_key_only [of led "callerId admin" "''fleet''" led' "env w" now]
  by (simp add: getFleetTracking_alt)

lemma getCarTracking_ledger_other:
  "k \<noteq> ledger_key (callerId admin) (''car-'' @ cid) \<Longrightarrow>
     snd (snd (getCarTracking w now admin cid led)) k = led k"
  by (simp add: getCarTracking_alt erl_other_key)

lemma getFleetTracking_ledger_other:
  "k \<noteq> ledger_key (callerId admin) ''fleet'' \<Longrightarrow>
     snd (snd (getFleetTracking w now admin led)) k = led k"
  by (simp add: getFleetTracking_alt erl_other_key)

lemma resolveCar_Inr:
  "fst (resolveCar w c) = Inr r \<Longrightarrow>
     pollAfterSeconds (payload r) = pollIntervalSeconds (env w)
     \<and> car (payload r) = Some (mapCar c)
     \<and> status (payload r) \<in> {not_mapped, device_not_found, no_fix_yet, ok}"
  by (auto simp add: resolveCar_def split: if_splits prod.splits sum.splits option.splits)

lemma tryCar_Inr:
  assumes "fst (tryCar w cid) = Inr r"
  shows "pollAfterSeconds (payload r) = pollIntervalSeconds (env w)
     \<and> status (payload r) \<in> {car_not_found, not_mapped, device_not_found, no_fix_yet, ok}"
proof (cases "findById w cid")
  case (Inl err)
  with assms show ?thesis by (simp add: tryCar_def)
next
  case (Inr found)
  show ?thesis
  proof (cases found)
    case None
    with Inr assms show ?thesis by (auto simp add: tryCar_def)
  next
    case (Some c)
    with Inr assms have "fst (resolveCar w c) = Inr r"
      by (simp add: tryCar_def split: prod.splits)
    from resolveCar_Inr [OF this] show ?thesis by auto
  qed
qed

lemma catchCar_tryCar:
  "pollAfterSeconds (payload (catchCar w (fst (tryCar w cid)))) = pollIntervalSeconds (env w)
   \<and> status (payload (catchCar w (fst (tryCar w cid)))) \<noteq> rate_limited"
proof (cases "fst (tryCar w cid)")
  case (Inl err)
  then show ?thesis by (simp add: catchCar_def)
next
  case (Inr r)
  then show ?thesis using tryCar_Inr [OF Inr] by (auto simp add: catchCar_def)
qed

lemma getCarTracking_fresh_not_limited:
  "led (ledger_key (callerId admin) (''car-'' @ cid)) = None \<Longrightarrow>
     status (payload (fst (getCarTracking w now admin cid led))) \<noteq> rate_limited"
  by (simp add: getCarTracking_alt catchCar_tryCar enforceRateLimit_cases)

section \<open>Rate limiter: independence of scopes\<close>

text \<open>
  Claim C7. For one caller and two distinct scopes, a request for one scope leaves the
  decision for the other as it was, whatever the ledger and the two request times: at the
  level of the limiter, and at the level of the endpoints for two different vehicle ids
  and for a vehicle id and the fleet scope. In particular, on a ledger without entries the
  same caller is admitted for both scopes at the same instant, and two single-vehicle
  requests for different vehicles at the same instant are both answered without
  \<open>rate_limited\<close>.
\<close>

theorem rate_limit_scopes_independent:
  assumes "sa \<noteq> sb" and "ca \<noteq> cb"
  shows
  "fst (enforceRateLimit cfg a sb tb (snd (enforceRateLimit cfg a sa ta led)))
     = fst (enforceRateLimit cfg a sb tb led)
   \<and> fst (enforceRateLimit cfg a sa now lastRequestByAdmin_init)
   \<and> fst (enforceRateLimit cfg a sb now
            (snd (enforceRateLimit cfg a sa now lastRequestByAdmin_init)))
   \<and> fst (getCarTracking w tb admin cb (snd (snd (getCarTracking w ta admin ca led))))
       = fst (getCarTracking w tb admin cb led)
   \<and> fst (getCarTracking w tb admin cb (snd (snd (getFleetTracking w ta admin led))))
       = fst (getCarTracking w tb admin cb led)
   \<and> fst (getFleetTracking w tb admin (snd (snd (getCarTracking w ta admin ca led))))
       = fst (getFleetTracking w tb admin led)
   \<and> status (payload (fst (getCarTracking w now admin ca lastRequestByAdmin_init)))
        \<noteq> rate_limited
   \<and> status (payload (fst (getCarTracking w now admin cb
          (snd (snd (getCarTracking w now admin ca lastRequestByAdmin_init))))))
        \<noteq> rate_limited"
proof -
  have k12: "ledger_key a sb \<noteq> ledger_key a sa"
    using assms(1) by (simp add: ledger_key_inj)
  have kc: "ledger_key (callerId admin) (''car-'' @ cb)
        \<noteq> ledger_key (callerId admin) (''car-'' @ ca)"
    using assms(2) by (simp add: ledger_key_inj)
  have kf: "ledger_key (callerId admin) (''car-'' @ cb)
        \<noteq> ledger_key (callerId admin) ''fleet''"
       "ledger_key (callerId admin) ''fleet''
        \<noteq> ledger_key (callerId admin) (''car-'' @ ca)"
    by (simp_all add: ledger_key_inj)
  have c1: "fst (enforceRateLimit cfg a sb tb (snd (enforceRateLimit cfg a sa ta led)))
     = fst (enforceRateLimit cfg a sb tb led)"
    by (rule erl_key_only) (simp add: erl_other_key [OF k12])
  have c2: "fst (enforceRateLimit cfg a sa now lastRequestByAdmin_init)"
    by (simp add: enforceRateLimit_cases lastRequestByAdmin_init_def)
  have c3: "fst (enforceRateLimit cfg a sb now
            (snd (enforceRateLimit cfg a sa now lastRequestByAdmin_init)))"
    using erl_key_only [of "snd (enforceRateLimit cfg a sa now lastRequestByAdmin_init)" a sb
        lastRequestByAdmin_init cfg now]
    by (simp add: enforceRateLimit_cases [of cfg a sb] erl_other_key [OF k12]
        lastRequestByAdmin_init_def)
  have c4: "fst (getCarTracking w tb admin cb (snd (snd (getCarTracking w ta admin ca led))))
       = fst (getCarTracking w tb admin cb led)"
    using getCarTracking_response_key_only getCarTracking_ledger_other [OF kc] by blast
  have c5: "fst (getCarTracking w tb admin cb (snd (snd (getFleetTracking w ta admin led))))
       = fst (getCarTracking w tb admin cb led)"
    using getCarTracking_response_key_only getFleetTracking_ledger_other [OF kf(1)] by blast
  have c6: "fst (getFleetTracking w tb admin (snd (snd (getCarTracking w ta admin ca led))))
       = fst (getFleetTracking w tb admin led)"
    using getFleetTracking_response_key_only getCarTracking_ledger_other [OF kf(2)] by blast
  have c7: "status (payload (fst (getCarTracking w now admin ca lastRequestByAdmin_init)))
        \<noteq> rate_limited"
    by (rule getCarTracking_fresh_not_limited) (simp add: lastRequestByAdmin_init_def)
  have c8: "status (payload (fst (getCarTracking w now admin cb
          (snd (snd (getCarTracking w now admin ca lastRequestByAdmin_init))))))
        \<noteq> rate_limited"
  proof (rule getCarTracking_fresh_not_limited)
    have "snd (snd (getCarTracking w now admin ca lastRequestByAdmin_init))
            (ledger_key (callerId admin) (''car-'' @ cb))
          = lastRequestByAdmin_init (ledger_key (callerId admin) (''car-'' @ cb))"
      by (rule getCarTracking_ledger_other [OF kc])
    then show "snd (snd (getCarTracking w now admin ca lastRequestByAdmin_init))
            (ledger_key (callerId admin) (''car-'' @ cb)) = None"
      by (simp add: lastRequestByAdmin_init_def)
  qed
  show ?thesis using c1 c2 c3 c4 c5 c6 c7 c8 by blast
qed

text \<open>
  Witness for C7: the scopes of vehicle v1 and of the fleet, and the vehicles v1 and v4,
  requested at the same instant 1000 on the empty ledger.
\<close>

theorem rate_limit_scopes_independent_witness:
  "fst (enforceRateLimit env_demo ''admin'' ''car-v1'' 1000 lastRequestByAdmin_init)
   \<and> fst (enforceRateLimit env_demo ''admin'' ''fleet'' 1000
       (snd (enforceRateLimit env_demo ''admin'' ''car-v1'' 1000 lastRequestByAdmin_init)))
   \<and> status (payload (fst (getCarTracking demo_world 1000 None ''v1'' lastRequestByAdmin_init)))
        = ok
   \<and> status (payload (fst (getCarTracking demo_world 1000 None ''v4''
          (snd (snd (getCarTracking demo_world 1000 None ''v1'' lastRequestByAdmin_init))))))
        = no_fix_yet"
proof -
  have d1: "''car-v1'' \<noteq> ''fleet''" and d2: "''v1'' \<noteq> ''v4''" by simp_all
  note ind = rate_limit_scopes_independent [OF d1 d2,
      where cfg = env_demo and a = "''admin''" and tb = 1000 and ta = 1000
        and led = lastRequestByAdmin_init and now = 1000 and w = demo_world and admin = None]
  have s4: "status (payload (fst (getCarTracking demo_world 1000 None ''v4''
          lastRequestByAdmin_init))) = no_fix_yet"
    by (simp add: getCarTracking_alt demo_world_def enforceRateLimit_cases
        lastRequestByAdmin_init_def tryCar_def demo_findById_def resolveCar_def car_V4_def
        truthy_num_def truthy_str_def getDevice_def getClient_def env_demo_def
        demo_devices_def device_45_def catchCar_def)
  have s1: "status (payload (fst (getCarTracking demo_world 1000 None ''v1''
          lastRequestByAdmin_init))) = ok"
    by (simp add: getCarTracking_alt demo_world_def enforceRateLimit_cases
        lastRequestByAdmin_init_def tryCar_def demo_findById_def resolveCar_def car_V1_def
        truthy_num_def truthy_str_def getDevice_def getPosition_def getClient_def env_demo_def
        demo_devices_def demo_positions_def device_42_def catchCar_def)
  have e1: "fst (enforceRateLimit env_demo ''admin'' ''car-v1'' 1000 lastRequestByAdmin_init)"
    using ind by blast
  have e2: "fst (enforceRateLimit env_demo ''admin'' ''fleet'' 1000
       (snd (enforceRateLimit env_demo ''admin'' ''car-v1'' 1000 lastRequestByAdmin_init)))"
    using ind by blast
  have "fst (getCarTracking demo_world 1000 None ''v4''
          (snd (snd (getCarTracking demo_world 1000 None ''v1'' lastRequestByAdmin_init))))
        = fst (getCarTracking demo_world 1000 None ''v4'' lastRequestByAdmin_init)"
    using ind by blast
  with s4 have e3: "status (payload (fst (getCarTracking demo_world 1000 None ''v4''
          (snd (snd (getCarTracking demo_world 1000 None ''v1'' lastRequestByAdmin_init))))))
        = no_fix_yet"
    by simp
  show ?thesis using e1 e2 s1 e3 by blast
qed

section \<open>Single-vehicle endpoint: the resolver, case by case\<close>

lemma tryCar_found:
  "findById w cid = Inr (Some c) \<Longrightarrow>
     tryCar w cid = (fst (resolveCar w c), FindById cid # snd (resolveCar w c))"
  by (simp add: tryCar_def split: prod.split)

lemma getCarTracking_found:
  assumes "isValidObjectId w cid"
    and "fst (enforceRateLimit (env w) (callerId admin) (''car-'' @ cid) now led)"
    and "findById w cid = Inr (Some c)"
  shows "fst (getCarTracking w now admin cid led) = catchCar w (fst (resolveCar w c))"
    and "fst (snd (getCarTracking w now admin cid led)) = FindById cid # snd (resolveCar w c)"
  using assms by (simp_all add: getCarTracking_alt tryCar_found)

lemma resolveCar_unmapped:
  "\<not> truthy_num (car_traccarDeviceId c) \<Longrightarrow>
     resolveCar w c =
       (Inr \<lparr>http_code = 404,
             payload = \<lparr>status = not_mapped, car = Some (mapCar c), position = None,
                        pollAfterSeconds = pollIntervalSeconds (env w)\<rparr>\<rparr>, [])"
  by (simp add: resolveCar_def)




lemma getDevice_failed:
  "getClient (env w) = Inr () \<Longrightarrow> api_devices w d = Inl e \<Longrightarrow> \<not> is_404 e \<Longrightarrow>
     getDevice w d = (Inl e, [GetDevices d])"
  by (simp add: getDevice_def)

lemma getDevice_unconfigured:
  "getClient (env w) = Inl e \<Longrightarrow> getDevice w d = (Inl e, [])"
  by (simp add: getDevice_def)








lemma resolveCar_events_order:
  "snd (resolveCar w c) = []
   \<or> snd (resolveCar w c) = [GetDevices (car_traccarDeviceId c)]
   \<or> (\<exists>p. snd (resolveCar w c) = [GetDevices (car_traccarDeviceId c), GetPositions p])"
  by (auto simp add: resolveCar_def getDevice_def getPosition_def
      split: sum.splits option.splits if_splits prod.splits)

section \<open>Single-vehicle endpoint: properties\<close>



text \<open>
  Claim C5. In the single-vehicle endpoint the checks come in this order. A malformed
  identifier is answered \<open>car_not_found\<close> with code 400 before anything else: the limiter
  records nothing and the registry is not consulted. Otherwise the limiter is asked, on
  the key of the caller and the vehicle, before the registry: a throttled request is
  answered \<open>rate_limited\<close> with code 429 and the vehicle document is never looked up,
  whether or not it exists. Only an admitted request looks the vehicle up, and a missing
  document is answered \<open>car_not_found\<close> with code 404. The last conjunct: the registry is
  consulted iff the identifier is well-formed and the limiter admits the request.
\<close>

theorem getCarTracking_precedence:
  "(\<not> isValidObjectId w cid \<longrightarrow>
      carResponse w now admin cid led =
        \<lparr>http_code = 400,
         payload = \<lparr>status = car_not_found, car = None, position = None,
                    pollAfterSeconds = pollIntervalSeconds (env w)\<rparr>\<rparr>
      \<and> carCalls w now admin cid led = []
      \<and> carLedger w now admin cid led = led)
   \<and> (isValidObjectId w cid
       \<and> \<not> fst (enforceRateLimit (env w) (callerId admin) (''car-'' @ cid) now led) \<longrightarrow>
      carResponse w now admin cid led =
        \<lparr>http_code = 429,
         payload = \<lparr>status = rate_limited, car = None, position = None,
                    pollAfterSeconds = pollIntervalSeconds (env w)\<rparr>\<rparr>
      \<and> carCalls w now admin cid led = []
      \<and> carLedger w now admin cid led = led)
   \<and> (isValidObjectId w cid
       \<and> fst (enforceRateLimit (env w) (callerId admin) (''car-'' @ cid) now led)
       \<and> findById w cid = Inr None \<longrightarrow>
      carResponse w now admin cid led =
        \<lparr>http_code = 404,
         payload = \<lparr>status = car_not_found, car = None, position = None,
                    pollAfterSeconds = pollIntervalSeconds (env w)\<rparr>\<rparr>
      \<and> carCalls w now admin cid led = [FindById cid]
      \<and> carLedger w now admin cid led
          = led(ledger_key (callerId admin) (''car-'' @ cid) \<mapsto> now))
   \<and> (FindById x \<in> set (carCalls w now admin cid led) \<longleftrightarrow>
        x = cid \<and> isValidObjectId w cid
        \<and> fst (enforceRateLimit (env w) (callerId admin) (''car-'' @ cid) now led))"
proof -
  have c1: "\<not> isValidObjectId w cid \<longrightarrow>
      carResponse w now admin cid led =
        \<lparr>http_code = 400,
         payload = \<lparr>status = car_not_found, car = None, position = None,
                    pollAfterSeconds = pollIntervalSeconds (env w)\<rparr>\<rparr>
      \<and> carCalls w now admin cid led = []
      \<and> carLedger w now admin cid led = led"
    by (simp add: carResponse_def carCalls_def carLedger_def getCarTracking_alt)
  have c2: "isValidObjectId w cid
       \<and> \<not> fst (enforceRateLimit (env w) (callerId admin) (''car-'' @ cid) now led) \<longrightarrow>
      carResponse w now admin cid led =
        \<lparr>http_code = 429,
         payload = \<lparr>status = rate_limited, car = None, position = None,
                    pollAfterSeconds = pollIntervalSeconds (env w)\<rparr>\<rparr>
      \<and> carCalls w now admin cid led = []
      \<and> carLedger w now admin cid led = led"
    by (simp add: carResponse_def carCalls_def carLedger_def getCarTracking_alt
        erl_rejected_unchanged)
  have c3: "isValidObjectId w cid
       \<and> fst (enforceRateLimit (env w) (callerId admin) (''car-'' @ cid) now led)
       \<and> findById w cid = Inr None \<longrightarrow>
      carResponse w now admin cid led =
        \<lparr>http_code = 404,
         payload = \<lparr>status = car_not_found, car = None, position = None,
                    pollAfterSeconds = pollIntervalSeconds (env w)\<rparr>\<rparr>
      \<and> carCalls w now admin cid led = [FindById cid]
      \<and> carLedger w now admin cid led
          = led(ledger_key (callerId admin) (''car-'' @ cid) \<mapsto> now)"
    by (simp add: carResponse_def carCalls_def carLedger_def getCarTracking_alt
        erl_admitted_records tryCar_def catchCar_def)
  have no_find: "FindById x \<notin> set (snd (resolveCar w c))" for c
    using resolveCar_events_order [of w c] by auto
  have ev: "FindById x \<in> set (snd (tryCar w cid)) \<longleftrightarrow> x = cid"
  proof (cases "findById w cid")
    case (Inl err)
    then show ?thesis by (auto simp add: tryCar_def)
  next
    case (Inr found)
    show ?thesis
    proof (cases found)
      case None
      with Inr show ?thesis by (auto simp add: tryCar_def)
    next
      case (Some c)
      with Inr have "tryCar w cid = (fst (resolveCar w c), FindById cid # snd (resolveCar w c))"
        by (simp add: tryCar_found)
      then show ?thesis using no_find [of c] by auto
    qed
  qed
  have c4: "FindById x \<in> set (carCalls w now admin cid led) \<longleftrightarrow>
        x = cid \<and> isValidObjectId w cid
        \<and> fst (enforceRateLimit (env w) (callerId admin) (''car-'' @ cid) now led)"
    by (simp add: carCalls_def getCarTracking_alt ev)
  show ?thesis using c1 c2 c3 c4 by blast
qed

text \<open>
  Witness for C5: the malformed identifier \<open>bad\<close>; the well-formed identifier \<open>zz\<close> of
  no vehicle, requested at 1000 (admitted, 404) and again at 2000 (throttled, 429, no
  lookup).
\<close>

theorem getCarTracking_precedence_witness:
  "http_code (carResponse demo_world 1000 None ''bad'' lastRequestByAdmin_init) = 400
   \<and> status (payload (carResponse demo_world 1000 None ''bad'' lastRequestByAdmin_init))
        = car_not_found
   \<and> http_code (carResponse demo_world 2000 None ''zz''
        (carLedger demo_world 1000 None ''zz'' lastRequestByAdmin_init)) = 429
   \<and> status (payload (carResponse demo_world 2000 None ''zz''
        (carLedger demo_world 1000 None ''zz'' lastRequestByAdmin_init))) = rate_limited
   \<and> carCalls demo_world 2000 None ''zz''
        (carLedger demo_world 1000 None ''zz'' lastRequestByAdmin_init) = []
   \<and> http_code (carResponse demo_world 1000 None ''zz'' lastRequestByAdmin_init) = 404
   \<and> status (payload (carResponse demo_world 1000 None ''zz'' lastRequestByAdmin_init))
        = car_not_found
   \<and> carCalls demo_world 1000 None ''zz'' lastRequestByAdmin_init = [FindById ''zz'']"
proof -
  have bad: "\<not> isValidObjectId demo_world ''bad''"
    by (simp add: demo_defs)
  have zz: "isValidObjectId demo_world ''zz''" "findById demo_world ''zz'' = Inr None"
    by (simp_all add: demo_defs)
  have first: "fst (enforceRateLimit (env demo_world) (callerId None) (''car-'' @ ''zz'') 1000
      lastRequestByAdmin_init)"
    by (simp add: enforceRateLimit_cases lastRequestByAdmin_init_def)
  have second: "\<not> fst (enforceRateLimit (env demo_world) (callerId None) (''car-'' @ ''zz'') 2000
      (carLedger demo_world 1000 None ''zz'' lastRequestByAdmin_init))"
    by (simp add: run_defs demo_defs)
  have r1: "http_code (carResponse demo_world 1000 None ''bad'' lastRequestByAdmin_init) = 400
   \<and> status (payload (carResponse demo_world 1000 None ''bad'' lastRequestByAdmin_init))
        = car_not_found"
    using getCarTracking_precedence [where w = demo_world and cid = "''bad''" and now = 1000
        and admin = None and led = lastRequestByAdmin_init] bad
    by simp
  have r2: "http_code (carResponse demo_world 2000 None ''zz''
        (carLedger demo_world 1000 None ''zz'' lastRequestByAdmin_init)) = 429
   \<and> status (payload (carResponse demo_world 2000 None ''zz''
        (carLedger demo_world 1000 None ''zz'' lastRequestByAdmin_init))) = rate_limited
   \<and> carCalls demo_world 2000 None ''zz''
        (carLedger demo_world 1000 None ''zz'' lastRequestByAdmin_init) = []"
    using getCarTracking_precedence [where w = demo_world and cid = "''zz''" and now = 2000
        and admin = None
        and led = "carLedger demo_world 1000 None ''zz'' lastRequestByAdmin_init"]
      zz(1) second
    by simp
  have r3: "http_code (carResponse demo_world 1000 None ''zz'' lastRequestByAdmin_init) = 404
   \<and> status (payload (carResponse demo_world 1000 None ''zz'' lastRequestByAdmin_init))
        = car_not_found
   \<and> carCalls demo_world 1000 None ''zz'' lastRequestByAdmin_init = [FindById ''zz'']"
    using getCarTracking_precedence [where w = demo_world and cid = "''zz''" and now = 1000
        and admin = None and led = lastRequestByAdmin_init] zz first
    by simp
  show ?thesis using r1 r2 r3 by blast
qed

section \<open>Both endpoints: the poll interval in every response\<close>

text \<open>
  Claim C8, as stated, fails on the code where the interval is configured as 0: every
  response then carries the default 5, not the configured 0.
\<close>

theorem pollAfterSeconds_zero_counterexample:
  "TRACCAR_MIN_POLL_INTERVAL (env demo_world_zero) = Some 0
   \<and> pollAfterSeconds (payload (carResponse demo_world_zero 1000 None ''v1''
        lastRequestByAdmin_init)) = 5
   \<and> fleet_pollAfterSeconds (payload (fleetResponse demo_world_zero 1000 None
        lastRequestByAdmin_init)) = 5"
  by (simp add: run_defs demo_defs)

text \<open>
  Claim C8, amended. Every response of either endpoint, whatever its outcome, carries
  \<open>pollAfterSeconds\<close> equal to the configured minimum poll interval where one other than
  0 is configured, and to the default 5 where none or 0 is configured; a thousand times
  that value is the interval in milliseconds that the limiter enforces.
\<close>

theorem pollAfterSeconds_everywhere:
  "pollAfterSeconds (payload (carResponse w now admin cid led))
     = (case TRACCAR_MIN_POLL_INTERVAL (env w) of
          None \<Rightarrow> 5
        | Some n \<Rightarrow> if n = 0 then 5 else n)
   \<and> fleet_pollAfterSeconds (payload (fleetResponse w now admin led))
     = (case TRACCAR_MIN_POLL_INTERVAL (env w) of
          None \<Rightarrow> 5
        | Some n \<Rightarrow> if n = 0 then 5 else n)
   \<and> pollIntervalMs (env w)
     = 1000 * pollAfterSeconds (payload (carResponse w now admin cid led))"
proof -
  have car: "pollAfterSeconds (payload (carResponse w now admin cid led))
      = pollIntervalSeconds (env w)"
    by (simp add: carResponse_def getCarTracking_alt catchCar_tryCar)
  have "fleet_pollAfterSeconds (payload (fst (tryFleet w))) = pollIntervalSeconds (env w)"
    by (simp add: tryFleet_def split: sum.split option.split)
  then have fleet: "fleet_pollAfterSeconds (payload (fleetResponse w now admin led))
       = pollIntervalSeconds (env w)"
    by (simp add: fleetResponse_def getFleetTracking_alt)
  have ms: "pollIntervalMs (env w) = 1000 * pollIntervalSeconds (env w)"
    by (simp add: pollIntervalMs_def)
  show ?thesis
    using car fleet ms pollIntervalSeconds_config [of "env w"] by simp
qed

text \<open>
  An instance of C8 away from the default: with 10 seconds configured a successful
  single-vehicle response, the answer to a malformed identifier and the fleet response
  carry 10; with nothing configured the fleet response carries 5.
\<close>

theorem pollAfterSeconds_everywhere_witness:
  "pollAfterSeconds (payload (carResponse demo_world_slow 1000 None ''v1''
      lastRequestByAdmin_init)) = 10
   \<and> pollAfterSeconds (payload (carResponse demo_world_slow 1000 None ''bad''
      lastRequestByAdmin_init)) = 10
   \<and> fleet_pollAfterSeconds (payload (fleetResponse demo_world_slow 1000 None
        lastRequestByAdmin_init)) = 10
   \<and> fleet_pollAfterSeconds (payload (fleetResponse demo_world_unset 1000 None
        lastRequestByAdmin_init)) = 5
   \<and> pollIntervalMs (env demo_world_slow) = 10000"
proof -
  have cfg: "TRACCAR_MIN_POLL_INTERVAL (env demo_world_slow) = Some 10"
    "TRACCAR_MIN_POLL_INTERVAL (env demo_world_unset) = None"
    by (simp_all add: demo_defs)
  show ?thesis
    using pollAfterSeconds_everywhere [of demo_world_slow 1000 None "''v1''"
        lastRequestByAdmin_init]
      pollAfterSeconds_everywhere [of demo_world_slow 1000 None "''bad''"
        lastRequestByAdmin_init]
      pollAfterSeconds_everywhere [of demo_world_unset 1000 None "''v1''"
        lastRequestByAdmin_init]
      cfg
    by simp
qed

section \<open>Fleet endpoint: the loop\<close>

lemma fleetCar_Inr:
  "fst (fleetCar w c) = Inr entry \<Longrightarrow>
     car_status entry \<in> {device_not_found, no_fix_yet, ok}
     \<and> carId entry = car_id c \<and> name entry = car_name c
     \<and> licensePlate entry = car_licensePlate c
     \<and> traccarDeviceId entry = car_traccarDeviceId c
     \<and> traccarUniqueId entry = car_traccarUniqueId c"
  by (auto simp add: fleetCar_def fleetEntry_def mapCar_def
      split: prod.splits sum.splits option.splits if_splits)

lemma fleetCar_events_device:
  "GetDevices d \<in> set (snd (fleetCar w c)) \<longleftrightarrow>
     d = car_traccarDeviceId c \<and> getClient (env w) = Inr ()"
  by (auto simp add: fleetCar_def getDevice_def getPosition_def
      split: prod.splits sum.splits option.splits if_splits)

lemma fleetCar_unconfigured:
  "getClient (env w) = Inl err \<Longrightarrow> fleetCar w c = (Inl err, [])"
  by (simp add: fleetCar_def getDevice_unconfigured)

lemma getClient_Inl:
  "getClient e = Inl err \<Longrightarrow> is_not_configured err"
  by (auto simp add: getClient_def is_not_configured_def split: if_splits)

lemma fleetLoop_complete:
  "\<forall>c\<in>set cs. \<forall>err. fst (fleetCar w c) = Inl err \<longrightarrow> \<not> is_not_configured err \<Longrightarrow>
     fleetLoop w cs acc evs =
       (Some (acc @ map (\<lambda>c. case fst (fleetCar w c) of
                                Inr entry \<Rightarrow> entry
                              | Inl err \<Rightarrow> fleetEntry (mapCar c) traccar_error None) cs),
        evs @ concat (map (\<lambda>c. snd (fleetCar w c)) cs))"
proof (induction cs arbitrary: acc evs)
  case Nil
  then show ?case by simp
next
  case (Cons c cs)
  obtain r ev where rc: "fleetCar w c = (r, ev)" by (cases "fleetCar w c")
  show ?case
  proof (cases r)
    case (Inl err)
    with rc Cons.prems have "\<not> is_not_configured err" by simp
    with Inl rc Cons show ?thesis by simp
  next
    case (Inr entry)
    with rc Cons show ?thesis by simp
  qed
qed

lemma fleetLoop_abort:
  "c \<in> set cs \<Longrightarrow> fst (fleetCar w c) = Inl err \<Longrightarrow> is_not_configured err \<Longrightarrow>
     fst (fleetLoop w cs acc evs) = None"
proof (induction cs arbitrary: acc evs)
  case Nil
  then show ?case by simp
next
  case (Cons x cs)
  obtain r ev where rx: "fleetCar w x = (r, ev)" by (cases "fleetCar w x")
  show ?case
  proof (cases "x = c")
    case True
    with rx Cons.prems show ?thesis by simp
  next
    case False
    with Cons.prems have "c \<in> set cs" by simp
    from Cons.IH [OF this Cons.prems(2,3)] rx show ?thesis
      by (cases r) simp_all
  qed
qed

lemma fleetLoop_statuses:
  "fst (fleetLoop w cs acc evs) = Some entries \<Longrightarrow>
   \<forall>e\<in>set acc. car_status e \<in> {ok, no_fix_yet, device_not_found, traccar_error} \<Longrightarrow>
   \<forall>e\<in>set entries. car_status e \<in> {ok, no_fix_yet, device_not_found, traccar_error}"
proof (induction cs arbitrary: acc evs)
  case Nil
  then show ?case by simp
next
  case (Cons c cs)
  obtain r ev where rc: "fleetCar w c = (r, ev)" by (cases "fleetCar w c")
  show ?case
  proof (cases r)
    case (Inl err)
    show ?thesis
    proof (cases "is_not_configured err")
      case True
      with Inl rc Cons.prems(1) show ?thesis by simp
    next
      case False
      with Inl rc Cons.prems(1)
      have "fst (fleetLoop w cs (acc @ [fleetEntry (mapCar c) traccar_error None]) (evs @ ev))
              = Some entries"
        by simp
      moreover have "\<forall>e\<in>set (acc @ [fleetEntry (mapCar c) traccar_error None]).
          car_status e \<in> {ok, no_fix_yet, device_not_found, traccar_error}"
        using Cons.prems(2) by (simp add: fleetEntry_def)
      ultimately show ?thesis by (rule Cons.IH)
    qed
  next
    case (Inr entry)
    with rc Cons.prems(1)
    have "fst (fleetLoop w cs (acc @ [entry]) (evs @ ev)) = Some entries"
      by simp
    moreover have "\<forall>e\<in>set (acc @ [entry]).
          car_status e \<in> {ok, no_fix_yet, device_not_found, traccar_error}"
      using Cons.prems(2) fleetCar_Inr [of w c entry] rc Inr by auto
    ultimately show ?thesis by (rule Cons.IH)
  qed
qed

lemma tryFleet_loaded:
  "collection w = Inr docs \<Longrightarrow>
     tryFleet w =
       (case fst (fleetLoop w (mappedCars docs) [] [FindMapped]) of
          None \<Rightarrow>
            \<lparr>http_code = 503,
              payload = \<lparr>fleet_status = traccar_not_configured,
                         fleet_pollAfterSeconds = pollIntervalSeconds (env w),
                         cars = []\<rparr>\<rparr>
        | Some entries \<Rightarrow>
            \<lparr>http_code = 200,
              payload = \<lparr>fleet_status = ok,
                         fleet_pollAfterSeconds = pollIntervalSeconds (env w),
                         cars = entries\<rparr>\<rparr>,
        snd (fleetLoop w (mappedCars docs) [] [FindMapped]))"
  by (simp add: tryFleet_def split: option.split)

lemma getFleetTracking_admitted:
  assumes "fst (enforceRateLimit (env w) (callerId admin) ''fleet'' now led)"
  shows "fleetResponse w now admin led = fst (tryFleet w)"
    and "fleetCalls w now admin led = snd (tryFleet w)"
  using assms by (simp_all add: fleetResponse_def fleetCalls_def getFleetTracking_alt)

section \<open>Fleet endpoint: properties\<close>

lemma fleetLoop_Some_no_abort:
  assumes "fst (fleetLoop w cs acc evs) = Some entries"
  shows "\<forall>c\<in>set cs. \<forall>err. fst (fleetCar w c) = Inl err \<longrightarrow> \<not> is_not_configured err"
proof (intro ballI allI impI notI)
  fix c err
  assume "c \<in> set cs" and "fst (fleetCar w c) = Inl err" and "is_not_configured err"
  then have "fst (fleetLoop w cs acc evs) = None" by (rule fleetLoop_abort)
  with assms show False by simp
qed

lemma demo_fleet_admitted:
  "fst (enforceRateLimit (env w) (callerId None) ''fleet'' 1000 lastRequestByAdmin_init)"
  by (simp add: enforceRateLimit_cases lastRequestByAdmin_init_def)

lemma demo_collection:
  "collection demo_world = Inr [car_V1, car_V2, car_V6, car_V3, car_V4, car_V5, car_V7]"
  "collection demo_world_unset = Inr [car_V1, car_V2, car_V6, car_V3, car_V4, car_V5, car_V7]"
  by (simp_all add: demo_world_def demo_world_unset_def)

lemma demo_mapped:
  "mappedCars [car_V1, car_V2, car_V6, car_V3, car_V4, car_V5, car_V7]
     = [car_V1, car_V2, car_V3, car_V4, car_V5, car_V7]"
  by (simp add: mappedCars_def demo_defs)



text \<open>
  Claim C4. In an admitted fleet request whose mapped vehicles are loaded, if the
  resolution of any vehicle of the list, at whatever place in it, raises the condition
  `provider unconfigured', the response is the top-level \<open>traccar_not_configured\<close> with
  code 503 and an empty vehicle list, whatever was collected before. In particular, when
  the environment lacks base URL, user or password and at least one vehicle is mapped, the
  request is aborted at the first vehicle, before any call to the provider.
\<close>

theorem getFleetTracking_unconfigured:
  assumes "fst (enforceRateLimit (env w) (callerId admin) ''fleet'' now led)"
    and "collection w = Inr docs"
  shows
    "(c \<in> set (mappedCars docs) \<and> fst (fleetCar w c) = Inl err \<and> is_not_configured err \<longrightarrow>
       fleetResponse w now admin led =
         \<lparr>http_code = 503,
          payload = \<lparr>fleet_status = traccar_not_configured,
                     fleet_pollAfterSeconds = pollIntervalSeconds (env w),
                     cars = []\<rparr>\<rparr>)
     \<and> (mappedCars docs \<noteq> [] \<and> getClient (env w) \<noteq> Inr () \<longrightarrow>
       fleetResponse w now admin led =
         \<lparr>http_code = 503,
          payload = \<lparr>fleet_status = traccar_not_configured,
                     fleet_pollAfterSeconds = pollIntervalSeconds (env w),
                     cars = []\<rparr>\<rparr>
       \<and> fleetCalls w now admin led = [FindMapped])"
proof -
  have resp: "fleetResponse w now admin led =
         \<lparr>http_code = 503,
          payload = \<lparr>fleet_status = traccar_not_configured,
                     fleet_pollAfterSeconds = pollIntervalSeconds (env w),
                     cars = []\<rparr>\<rparr>"
    if "x \<in> set (mappedCars docs)" and "fst (fleetCar w x) = Inl e" and "is_not_configured e"
    for x e
    using fleetLoop_abort [OF that, of "[]" "[FindMapped]"]
    by (simp add: getFleetTracking_admitted(1) [OF assms(1)] tryFleet_loaded [OF assms(2)])
  have general: "c \<in> set (mappedCars docs) \<and> fst (fleetCar w c) = Inl err \<and> is_not_configured err \<longrightarrow>
       fleetResponse w now admin led =
         \<lparr>http_code = 503,
          payload = \<lparr>fleet_status = traccar_not_configured,
                     fleet_pollAfterSeconds = pollIntervalSeconds (env w),
                     cars = []\<rparr>\<rparr>"
    using resp by blast
  have env_case: "fleetResponse w now admin led =
         \<lparr>http_code = 503,
          payload = \<lparr>fleet_status = traccar_not_configured,
                     fleet_pollAfterSeconds = pollIntervalSeconds (env w),
                     cars = []\<rparr>\<rparr>
       \<and> fleetCalls w now admin led = [FindMapped]"
    if ne: "mappedCars docs \<noteq> []" and un: "getClient (env w) \<noteq> Inr ()"
  proof -
    from un obtain e where e: "getClient (env w) = Inl e" by (cases "getClient (env w)") auto
    from ne obtain x xs where xs: "mappedCars docs = x # xs" by (cases "mappedCars docs") auto
    have fx: "fleetCar w x = (Inl e, [])" by (rule fleetCar_unconfigured [OF e])
    have "x \<in> set (mappedCars docs)" by (simp add: xs)
    from resp [OF this, of e] fx getClient_Inl [OF e]
    have r: "fleetResponse w now admin led =
         \<lparr>http_code = 503,
          payload = \<lparr>fleet_status = traccar_not_configured,
                     fleet_pollAfterSeconds = pollIntervalSeconds (env w),
                     cars = []\<rparr>\<rparr>" by simp
    have "snd (fleetLoop w (mappedCars docs) [] [FindMapped]) = [FindMapped]"
      using fx getClient_Inl [OF e] by (simp add: xs)
    then have "fleetCalls w now admin led = [FindMapped]"
      by (simp add: getFleetTracking_admitted(2) [OF assms(1)] tryFleet_loaded [OF assms(2)])
    with r show ?thesis by simp
  qed
  show ?thesis using general env_case by blast
qed

text \<open>Witness for C4: the demo fleet of six mapped vehicles with nothing configured.\<close>

theorem getFleetTracking_unconfigured_witness:
  "fleetResponse demo_world_unset 1000 None lastRequestByAdmin_init =
     \<lparr>http_code = 503,
      payload = \<lparr>fleet_status = traccar_not_configured, fleet_pollAfterSeconds = 5,
                 cars = []\<rparr>\<rparr>
   \<and> fleetCalls demo_world_unset 1000 None lastRequestByAdmin_init = [FindMapped]
   \<and> length (mappedCars [car_V1, car_V2, car_V6, car_V3, car_V4, car_V5, car_V7]) = 6"
proof -
  have ne: "mappedCars [car_V1, car_V2, car_V6, car_V3, car_V4, car_V5, car_V7] \<noteq> []"
    by (simp add: demo_mapped)
  have un: "getClient (env demo_world_unset) \<noteq> Inr ()"
    by (simp add: getClient_def demo_defs truthy_str_def)
  have poll: "pollIntervalSeconds (env demo_world_unset) = 5"
    by (simp add: pollIntervalSeconds_def demo_defs)
  from getFleetTracking_unconfigured [OF demo_fleet_admitted demo_collection(2)] ne un poll
  show ?thesis by (simp add: demo_mapped)
qed

text \<open>
  Claim C10. In every fleet response the status of each entry of the vehicle list is one
  of \<open>ok\<close>, \<open>no_fix_yet\<close>, \<open>device_not_found\<close> and \<open>traccar_error\<close>; so \<open>not_mapped\<close>,
  \<open>car_not_found\<close>, \<open>rate_limited\<close> and \<open>traccar_not_configured\<close> never are the status
  of an entry.
\<close>

theorem fleet_entry_statuses:
  "\<forall>e\<in>set (cars (payload (fleetResponse w now admin led))).
      car_status e \<in> {ok, no_fix_yet, device_not_found, traccar_error}"
proof (cases "fst (enforceRateLimit (env w) (callerId admin) ''fleet'' now led)")
  case False
  then show ?thesis by (simp add: fleetResponse_def getFleetTracking_alt)
next
  case True
  show ?thesis
  proof (cases "collection w")
    case (Inl err)
    then show ?thesis
      by (simp add: getFleetTracking_admitted(1) [OF True] tryFleet_def)
  next
    case (Inr docs)
    show ?thesis
    proof (cases "fst (fleetLoop w (mappedCars docs) [] [FindMapped])")
      case None
      then show ?thesis
        by (simp add: getFleetTracking_admitted(1) [OF True] tryFleet_loaded [OF Inr])
    next
      case (Some entries)
      from fleetLoop_statuses [OF Some] have
        "\<forall>e\<in>set entries. car_status e \<in> {ok, no_fix_yet, device_not_found, traccar_error}"
        by simp
      with Some show ?thesis
        by (simp add: getFleetTracking_admitted(1) [OF True] tryFleet_loaded [OF Inr])
    qed
  qed
qed

text \<open>
  Witness for C10: the response for the demo fleet has a non-empty list, and each of the
  four statuses occurs in it.
\<close>

theorem fleet_entry_statuses_witness:
  "cars (payload (fleetResponse demo_world 1000 None lastRequestByAdmin_init)) \<noteq> []
   \<and> car_status (hd (cars (payload (fleetResponse demo_world 1000 None lastRequestByAdmin_init))))
       \<in> {ok, no_fix_yet, device_not_found, traccar_error}
   \<and> map car_status (cars (payload (fleetResponse demo_world 1000 None lastRequestByAdmin_init)))
       = [ok, traccar_error, device_not_found, no_fix_yet, device_not_found, no_fix_yet]"
proof -
  have sts: "map car_status (cars (payload (fleetResponse demo_world 1000 None
        lastRequestByAdmin_init)))
       = [ok, traccar_error, device_not_found, no_fix_yet, device_not_found, no_fix_yet]"
    by (simp add: run_defs demo_defs)
  then have ne: "cars (payload (fleetResponse demo_world 1000 None lastRequestByAdmin_init)) \<noteq> []"
    by auto
  then have "hd (cars (payload (fleetResponse demo_world 1000 None lastRequestByAdmin_init)))
      \<in> set (cars (payload (fleetResponse demo_world 1000 None lastRequestByAdmin_init)))"
    by simp
  with fleet_entry_statuses [of demo_world 1000 None lastRequestByAdmin_init]
  have "car_status (hd (cars (payload (fleetResponse demo_world 1000 None
        lastRequestByAdmin_init)))) \<in> {ok, no_fix_yet, device_not_found, traccar_error}"
    by blast
  with sts ne show ?thesis by blast
qed

section \<open>A device id of 0 in the two endpoints\<close>

text \<open>
  Claim C9. Let a vehicle carry the provider device id 0. The single-vehicle endpoint,
  once the request is admitted and the document found, answers \<open>not_mapped\<close> (404) and
  makes no call to the provider. The query of the fleet endpoint selects the vehicle, and
  a fleet request that is processed to the end fetches the device 0 from the provider and
  lists the vehicle with a status other than \<open>not_mapped\<close>.
\<close>

theorem zero_device_id_disagreement:
  assumes "car_traccarDeviceId c = Some 0"
  shows
   "(isValidObjectId w cid
       \<and> fst (enforceRateLimit (env w) (callerId admin) (''car-'' @ cid) now led)
       \<and> findById w cid = Inr (Some c) \<longrightarrow>
      http_code (carResponse w now admin cid led) = 404
      \<and> status (payload (carResponse w now admin cid led)) = not_mapped
      \<and> carCalls w now admin cid led = [FindById cid])
    \<and> (c \<in> set docs \<longrightarrow> c \<in> set (mappedCars docs))
    \<and> (fst (enforceRateLimit (env w) (callerId admin) ''fleet'' now led)
       \<and> collection w = Inr docs \<and> c \<in> set docs
       \<and> fleet_status (payload (fleetResponse w now admin led)) = ok \<longrightarrow>
      GetDevices (Some 0) \<in> set (fleetCalls w now admin led)
      \<and> (\<exists>e\<in>set (cars (payload (fleetResponse w now admin led))).
            carId e = car_id c \<and> car_status e \<noteq> not_mapped))"
proof -
  have single: "http_code (carResponse w now admin cid led) = 404
      \<and> status (payload (carResponse w now admin cid led)) = not_mapped
      \<and> carCalls w now admin cid led = [FindById cid]"
    if "isValidObjectId w cid"
      and "fst (enforceRateLimit (env w) (callerId admin) (''car-'' @ cid) now led)"
      and "findById w cid = Inr (Some c)"
  proof -
    have "\<not> truthy_num (car_traccarDeviceId c)"
      using assms by (simp add: truthy_num_def)
    then show ?thesis
      using getCarTracking_found [OF that]
      by (simp add: carResponse_def carCalls_def resolveCar_unmapped catchCar_def)
  qed
  have selected: "c \<in> set docs \<longrightarrow> c \<in> set (mappedCars docs)"
    using assms by (simp add: mappedCars_def)
  have fleet: "GetDevices (Some 0) \<in> set (fleetCalls w now admin led)
      \<and> (\<exists>e\<in>set (cars (payload (fleetResponse w now admin led))).
            carId e = car_id c \<and> car_status e \<noteq> not_mapped)"
    if adm: "fst (enforceRateLimit (env w) (callerId admin) ''fleet'' now led)"
      and docs: "collection w = Inr docs" and c: "c \<in> set docs"
      and full: "fleet_status (payload (fleetResponse w now admin led)) = ok"
  proof -
    let ?ms = "mappedCars docs"
    let ?f = "\<lambda>c. case fst (fleetCar w c) of
                   Inr entry \<Rightarrow> entry
                 | Inl err \<Rightarrow> fleetEntry (mapCar c) traccar_error None"
    have cm: "c \<in> set ?ms" using selected c by simp
    obtain entries where some: "fst (fleetLoop w ?ms [] [FindMapped]) = Some entries"
      using full
      by (cases "fst (fleetLoop w ?ms [] [FindMapped])")
         (simp_all add: getFleetTracking_admitted(1) [OF adm] tryFleet_loaded [OF docs])
    note na = fleetLoop_Some_no_abort [OF some]
    have loop: "fleetLoop w ?ms [] [FindMapped]
      = (Some (map ?f ?ms), [FindMapped] @ concat (map (\<lambda>c. snd (fleetCar w c)) ?ms))"
      using fleetLoop_complete [OF na, of "[]" "[FindMapped]"] by simp
    have conf: "getClient (env w) = Inr ()"
    proof (cases "getClient (env w)")
      case (Inl e)
      from fleetCar_unconfigured [OF Inl, of c] getClient_Inl [OF Inl] na cm
      show ?thesis by auto
    next
      case (Inr u)
      then show ?thesis by simp
    qed
    have "GetDevices (Some 0) \<in> set (snd (fleetCar w c))"
      using conf assms by (simp add: fleetCar_events_device)
    with cm have calls: "GetDevices (Some 0) \<in> set (fleetCalls w now admin led)"
      by (auto simp add: getFleetTracking_admitted(2) [OF adm] tryFleet_loaded [OF docs] loop)
    have cars_eq: "cars (payload (fleetResponse w now admin led)) = map ?f ?ms"
      by (simp add: getFleetTracking_admitted(1) [OF adm] tryFleet_loaded [OF docs] loop)
    have "carId (?f c) = car_id c \<and> car_status (?f c) \<noteq> not_mapped"
      using fleetCar_Inr [of w c]
      by (cases "fst (fleetCar w c)") (auto simp add: fleetEntry_def mapCar_def)
    with cm have "\<exists>e\<in>set (map ?f ?ms). carId e = car_id c \<and> car_status e \<noteq> not_mapped"
      by auto
    with calls cars_eq show ?thesis by simp
  qed
  show ?thesis using single selected fleet by blast
qed

text \<open>Witness for C9: the vehicle V5 of the demo fleet.\<close>

theorem zero_device_id_disagreement_witness:
  "status (payload (carResponse demo_world 1000 None ''v5'' lastRequestByAdmin_init))
     = not_mapped
   \<and> carCalls demo_world 1000 None ''v5'' lastRequestByAdmin_init = [FindById ''v5'']
   \<and> car_V5 \<in> set (mappedCars [car_V1, car_V2, car_V6, car_V3, car_V4, car_V5, car_V7])
   \<and> GetDevices (Some 0) \<in> set (fleetCalls demo_world 1000 None lastRequestByAdmin_init)"
proof -
  have zero: "car_traccarDeviceId car_V5 = Some 0"
    by (simp add: car_V5_def)
  have single: "isValidObjectId demo_world ''v5''"
      "fst (enforceRateLimit (env demo_world) (callerId None) (''car-'' @ ''v5'') 1000
         lastRequestByAdmin_init)"
      "findById demo_world ''v5'' = Inr (Some car_V5)"
    by (simp_all add: demo_defs enforceRateLimit_cases lastRequestByAdmin_init_def)
  have mem: "car_V5 \<in> set [car_V1, car_V2, car_V6, car_V3, car_V4, car_V5, car_V7]"
    by simp
  have full: "fleet_status (payload (fleetResponse demo_world 1000 None lastRequestByAdmin_init))
      = ok"
    by (simp add: run_defs demo_defs)
  note z = zero_device_id_disagreement [OF zero, where w = demo_world and cid = "''v5''"
      and admin = None and now = 1000 and led = lastRequestByAdmin_init
      and docs = "[car_V1, car_V2, car_V6, car_V3, car_V4, car_V5, car_V7]"]
  from z single have a: "status (payload (carResponse demo_world 1000 None ''v5''
        lastRequestByAdmin_init)) = not_mapped
      \<and> carCalls demo_world 1000 None ''v5'' lastRequestByAdmin_init = [FindById ''v5'']"
    by blast
  from z mem have b: "car_V5 \<in> set (mappedCars [car_V1, car_V2, car_V6, car_V3, car_V4,
        car_V5, car_V7])"
    by blast
  from z demo_fleet_admitted [of demo_world] demo_collection(1) mem full
  have c: "GetDevices (Some 0) \<in> set (fleetCalls demo_world 1000 None lastRequestByAdmin_init)"
    by blast
  show ?thesis using a b c by blast
qed

end
